theory Spec2Isabelle
  imports Main "HOL-Library.Sublist"
begin

section \<open>Strings and the standard-library calls of the handlers\<close>

text \<open>
  A Go \<^verbatim>\<open>string\<close> is a byte sequence: \<^typ>\<open>string\<close> here, one \<^typ>\<open>char\<close> per byte.
  A Go \<^verbatim>\<open>error\<close> is modelled by its message (what \<^verbatim>\<open>err.Error()\<close> returns, the
  only thing the handlers look at); \<^verbatim>\<open>nil\<close> is \<^term>\<open>None\<close>.
\<close>

type_synonym error = string

definition errInvalidAuth :: error where
  "errInvalidAuth = ''invalid_auth''"

definition errInactiveAccount :: error where
  "errInactiveAccount = ''account_inactive''"

definition errMissingAuthToken :: error where
  "errMissingAuthToken = ''not_authed''"

text \<open>
  \<^verbatim>\<open>strings.Split(s, " ")\<close>: the pieces of \<open>s\<close> between the occurrences of the
  one-byte separator. The result is never empty: a string with \<open>n\<close> separators has
  \<open>n + 1\<close> pieces.
\<close>

fun strings_Split :: "string \<Rightarrow> char \<Rightarrow> string list" where
  "strings_Split [] sep = [[]]"
| "strings_Split (c # cs) sep =
     (if c = sep then [] # strings_Split cs sep
      else (c # hd (strings_Split cs sep)) # tl (strings_Split cs sep))"

text \<open>\<^verbatim>\<open>strings.Trim(s, cutset)\<close>: all leading and trailing bytes of the cutset removed.\<close>

definition strings_Trim :: "string \<Rightarrow> string \<Rightarrow> string" where
  "strings_Trim s cutset =
     rev (dropWhile (\<lambda>c. c \<in> set cutset) (rev (dropWhile (\<lambda>c. c \<in> set cutset) s)))"

text \<open>
  \<^verbatim>\<open>strings.ToLower\<close>: on a string of ASCII bytes only, every byte \<open>A\<close>..\<open>Z\<close> is
  replaced by its lower-case letter. On any other string Go maps every rune through the
  Unicode tables; those are not part of this repository, so that mapping is the
  parameter \<open>unicodeLower\<close>.
\<close>

definition asciiLower :: "char \<Rightarrow> char" where
  "asciiLower c =
     (case map_of (zip ''ABCDEFGHIJKLMNOPQRSTUVWXYZ'' ''abcdefghijklmnopqrstuvwxyz'') c of
        Some d \<Rightarrow> d
      | None \<Rightarrow> c)"

definition strings_ToLower :: "(string \<Rightarrow> string) \<Rightarrow> string \<Rightarrow> string" where
  "strings_ToLower unicodeLower s =
     (if list_all (\<lambda>c. of_char c < (128 :: nat)) s then map asciiLower s else unicodeLower s)"

text \<open>
  Indexing a slice: Go panics when the index is out of range. A panic is a value of
  the model, so that a run that panics is told apart from one that returns.
\<close>

datatype panic = IndexOutOfRange nat nat

definition index :: "'a list \<Rightarrow> nat \<Rightarrow> panic + 'a" where
  "index xs i = (if i < length xs then Inr (xs ! i) else Inl (IndexOutOfRange i (length xs)))"

section \<open>The four regular expressions\<close>

text \<open>
  Each pattern of \<^verbatim>\<open>handlers.go\<close> is written out as the matcher Go's \<^verbatim>\<open>regexp\<close>
  package runs for it (leftmost match, greedy repetition). All literal bytes of the
  patterns are ASCII, and no byte of a multi-byte UTF-8 rune is an ASCII byte, so
  matching byte by byte agrees with Go's matching rune by rune.
\<close>

text \<open>A literal at the start of the input: the rest of the input behind it.\<close>

fun matchLit :: "string \<Rightarrow> string \<Rightarrow> string option" where
  "matchLit [] s = Some s"
| "matchLit (p # ps) [] = None"
| "matchLit (p # ps) (c # cs) = (if p = c then matchLit ps cs else None)"

text \<open>The class \<^verbatim>\<open>\s\<close> of Go's regexp syntax: tab, line feed, form feed, carriage return, space.\<close>

definition isSpace :: "char \<Rightarrow> bool" where
  "isSpace c \<longleftrightarrow> c = CHR 0x09 \<or> c = CHR 0x0A \<or> c = CHR 0x0C \<or> c = CHR 0x0D \<or> c = CHR '' ''"

text \<open>\<^verbatim>\<open>helpCmdRE = ^help\<close> and \<^verbatim>\<open>serverCmdRE = ^server\<close>, with \<^verbatim>\<open>MatchString\<close>.\<close>

definition helpCmdRE_MatchString :: "string \<Rightarrow> bool" where
  "helpCmdRE_MatchString s \<longleftrightarrow> matchLit ''help'' s \<noteq> None"

definition serverCmdRE_MatchString :: "string \<Rightarrow> bool" where
  "serverCmdRE_MatchString s \<longleftrightarrow> matchLit ''server'' s \<noteq> None"

text \<open>
  \<^verbatim>\<open>atMentionRE = <@([^>|]+)\<close>. One match at the start of the input: the literal
  \<^verbatim>\<open><@\<close>, then the longest non-empty run of bytes other than \<^verbatim>\<open>>\<close> and \<^verbatim>\<open>|\<close>
  (nothing follows the group, so the greedy run is never given back). The result is
  the group and the input behind the match.
\<close>

definition isMentionChar :: "char \<Rightarrow> bool" where
  "isMentionChar c \<longleftrightarrow> c \<noteq> CHR ''>'' \<and> c \<noteq> CHR ''|''"

definition atMentionRE_matchAt :: "string \<Rightarrow> (string \<times> string) option" where
  "atMentionRE_matchAt s =
     (case matchLit ''<@'' s of
        None \<Rightarrow> None
      | Some r \<Rightarrow>
          if takeWhile isMentionChar r = [] then None
          else Some (takeWhile isMentionChar r, dropWhile isMentionChar r))"

lemma matchLit_length: "matchLit p s = Some r \<Longrightarrow> length s = length p + length r"
  by (induction p s rule: matchLit.induct) (auto split: if_splits)

lemma atMentionRE_matchAt_shorter:
  "atMentionRE_matchAt s = Some (g, r) \<Longrightarrow> length r < length s"
proof -
  assume a: "atMentionRE_matchAt s = Some (g, r)"
  then obtain q where q: "matchLit ''<@'' s = Some q" and r: "r = dropWhile isMentionChar q"
    by (auto simp: atMentionRE_matchAt_def split: option.splits if_splits)
  have "length r \<le> length q"
    unfolding r by (rule length_dropWhile_le)
  moreover have "length s = 2 + length q"
    using matchLit_length [OF q] by simp
  ultimately show ?thesis by simp
qed

text \<open>
  \<^verbatim>\<open>atMentionRE.FindAllStringSubmatch(text, -1)\<close>: the successive non-overlapping
  matches, each the leftmost one in what is left of the text, the search going on
  behind the match. A match is the pair of the whole match and the group
  (\<^verbatim>\<open>match[0]\<close> and \<^verbatim>\<open>match[1]\<close>); Go's \<^verbatim>\<open>nil\<close> result is the empty list.
\<close>

function atMentionRE_FindAllStringSubmatch :: "string \<Rightarrow> (string \<times> string) list" where
  "atMentionRE_FindAllStringSubmatch [] = []"
| "atMentionRE_FindAllStringSubmatch (c # cs) =
     (case atMentionRE_matchAt (c # cs) of
        None \<Rightarrow> atMentionRE_FindAllStringSubmatch cs
      | Some (g, r) \<Rightarrow> (''<@'' @ g, g) # atMentionRE_FindAllStringSubmatch r)"
  by pat_completeness auto
termination
  by (relation "measure length") (auto dest: atMentionRE_matchAt_shorter)

text \<open>
  \<^verbatim>\<open>serverConfigRE = ^server\s+(<https?:\/\/\S+>)\<close>. The pattern is anchored, and
  every choice but the last is forced: the run of \<^verbatim>\<open>\s\<close> must end where \<^verbatim>\<open><\<close>
  stands, and \<^verbatim>\<open>s?\<close> must be followed by \<^verbatim>\<open>:\<close>. The greedy \<^verbatim>\<open>\S+\<close> takes the
  whole run of non-space bytes and gives bytes back until a \<^verbatim>\<open>>\<close> follows it, so the
  group ends at the last \<^verbatim>\<open>>\<close> of the run that is not its first byte. The result is
  the whole match and the group. (\<^term>\<open>optChar\<close> is \<^verbatim>\<open>s?\<close>: what it matched and the
  input behind it; \<^term>\<open>uptoLast\<close> is the prefix of a string that ends at its last
  \<^verbatim>\<open>>\<close>.)
\<close>

definition optChar :: "char \<Rightarrow> string \<Rightarrow> string \<times> string" where
  "optChar c s = (case s of [] \<Rightarrow> ([], []) | d # ds \<Rightarrow> if d = c then ([c], ds) else ([], s))"

definition uptoLast :: "char \<Rightarrow> string \<Rightarrow> string" where
  "uptoLast c s = rev (dropWhile (\<lambda>d. d \<noteq> c) (rev s))"

definition serverConfigRE_FindStringSubmatch :: "string \<Rightarrow> (string \<times> string) option" where
  "serverConfigRE_FindStringSubmatch s =
     (case matchLit ''server'' s of
        None \<Rightarrow> None
      | Some r1 \<Rightarrow>
          if takeWhile isSpace r1 = [] then None
          else
            (case matchLit ''<http'' (dropWhile isSpace r1) of
               None \<Rightarrow> None
             | Some r3 \<Rightarrow>
                 (case matchLit ''://'' (snd (optChar CHR ''s'' r3)) of
                    None \<Rightarrow> None
                  | Some r5 \<Rightarrow>
                      let run = uptoLast CHR ''>'' (takeWhile (\<lambda>c. \<not> isSpace c) r5);
                          grp = ''<http'' @ fst (optChar CHR ''s'' r3) @ ''://'' @ run
                      in if length run < 2 then None
                         else Some (''server'' @ takeWhile isSpace r1 @ grp, grp))))"

definition serverConfigRE_MatchString :: "string \<Rightarrow> bool" where
  "serverConfigRE_MatchString s \<longleftrightarrow> serverConfigRE_FindStringSubmatch s \<noteq> None"

text \<open>
  \<^verbatim>\<open>serverConfigRE.FindAllStringSubmatch(text, -1)\<close>: the pattern starts with
  \<^verbatim>\<open>^\<close>, so it matches at the start of the text or nowhere, and at most once.
\<close>

definition serverConfigRE_FindAllStringSubmatch :: "string \<Rightarrow> (string \<times> string) list" where
  "serverConfigRE_FindAllStringSubmatch s =
     (case serverConfigRE_FindStringSubmatch s of None \<Rightarrow> [] | Some m \<Rightarrow> [m])"

section \<open>Data model\<close>

text \<open>
  Modelled from the spec: the type declarations \<^verbatim>\<open>ServerCfg\<close>, \<^verbatim>\<open>ServerCfgData\<close> and
  \<^verbatim>\<open>JWTInput\<close>, which are elsewhere in the package (section 3 of the spec lists their
  fields), and the user record of the Slack client. Each has the fields that the two
  files read or set, under the names used there (\<^verbatim>\<open>Profile.Image192\<close> is \<open>Image192\<close>).
\<close>

record ServerCfg =
  Server :: string
  TenantScopedURLs :: bool
  AuthenticatedURLSupport :: bool

record ServerCfgData =
  TeamID :: string
  Server :: string

record JWTInput =
  TenantID :: string
  TenantName :: string
  RoomClaim :: string
  UserID :: string
  UserName :: string
  AvatarURL :: string

record UserInfo =
  ID :: string
  Name :: string
  Image192 :: string

text \<open>
  Every call that leaves the handler is recorded, in order, in a trace of events. The
  answer of a collaborator may depend on everything that happened before the call, so
  each collaborator takes the trace up to its call as its first argument; two calls
  with the same arguments may answer differently.
\<close>

datatype event =
    EvReadBody
  | EvValidRequest string string string string
  | EvRandomName
  | EvConfigGet string
  | EvConfigStore ServerCfgData
  | EvConfigRemove string
  | EvTokenGet string
  | EvCreateJWT JWTInput
  | EvGetUserInfo string string
  | EvOpenConversation string string
  | EvPostMessage string string string string
  | EvLog string error

text \<open>
  What the two files call and do not define: \<^verbatim>\<open>RandomName\<close>, \<^verbatim>\<open>ValidRequest\<close> and the
  two header names (elsewhere in the package), the Unicode case mapping, and the three
  calls of the Slack client (the token is the one the client was made with).
\<close>

record library =
  RandomName :: "event list \<Rightarrow> string"
  ValidRequest :: "string \<Rightarrow> string \<Rightarrow> string \<Rightarrow> string \<Rightarrow> bool"
  RequestTimestampHeader :: string
  RequestSignatureHeader :: string
  unicodeLower :: "string \<Rightarrow> string"
  GetUserInfo :: "event list \<Rightarrow> string \<Rightarrow> string \<Rightarrow> error + UserInfo"
  OpenConversation :: "event list \<Rightarrow> string \<Rightarrow> string \<Rightarrow> error + string"
  PostMessage :: "event list \<Rightarrow> string \<Rightarrow> string \<Rightarrow> string \<Rightarrow> string \<Rightarrow> error option"

text \<open>The interfaces of the two files: a one-method interface is its method.\<close>

record ServerConfigWriter =
  Store :: "event list \<Rightarrow> ServerCfgData \<Rightarrow> error option"
  Remove :: "event list \<Rightarrow> string \<Rightarrow> error option"

record MeetingGenerator =
  ServerConfigReader :: "event list \<Rightarrow> string \<Rightarrow> error + ServerCfg"
  MeetingTokenGenerator :: "event list \<Rightarrow> JWTInput \<Rightarrow> error + string"

record SlashCommandHandlers =
  MeetingGenerator :: MeetingGenerator
  SlackSigningSecret :: string
  TokenReader :: "event list \<Rightarrow> string \<Rightarrow> error + string"
  SharableURL :: string
  ServerConfigWriter :: ServerConfigWriter

text \<open>
  A function that returns \<^verbatim>\<open>(string, error)\<close> returns both values, as in Go: the
  caller of \<^verbatim>\<open>joinPersonalMeetingMsg\<close> uses the string also when the error is not nil.
\<close>

record Meeting =
  RoomName :: string
  URL :: string
  Host :: string
  AuthenticatedURL ::
    "string \<Rightarrow> string \<Rightarrow> string \<Rightarrow> event list \<Rightarrow> (string \<times> error option) \<times> event list"

subsection \<open>The request and the response writer\<close>

text \<open>
  Of the request: its headers (keys in canonical form, as the server stores them), what
  reading its body gives, and what \<^verbatim>\<open>ParseForm\<close> makes of it (the body is put back
  unchanged after validation, so the form depends on the request alone).
\<close>

record request =
  Header :: "string \<rightharpoonup> string list"
  Body :: "error + string"
  ParseForm :: "error option"
  PostForm :: "string \<rightharpoonup> string list"

definition Header_Get :: "(string \<rightharpoonup> string list) \<Rightarrow> string \<Rightarrow> string" where
  "Header_Get h k = (case h k of None \<Rightarrow> [] | Some [] \<Rightarrow> [] | Some (v # vs) \<Rightarrow> v)"

definition PostFormValue :: "request \<Rightarrow> string \<Rightarrow> string" where
  "PostFormValue r k = (case PostForm r k of None \<Rightarrow> [] | Some [] \<Rightarrow> [] | Some (v # vs) \<Rightarrow> v)"

text \<open>
  The response as it is sent. The first \<^verbatim>\<open>WriteHeader\<close> fixes the status and the
  headers; \<^verbatim>\<open>Write\<close> sends status 200 first when none was sent. A handler that returns
  without writing anything answers 200 with an empty body.
\<close>

record ResponseWriter =
  wroteHeader :: "nat option"
  header :: "string \<rightharpoonup> string"
  body :: string

definition newResponseWriter :: ResponseWriter where
  "newResponseWriter = \<lparr>wroteHeader = None, header = Map.empty, body = []\<rparr>"

definition Header_Set :: "string \<Rightarrow> string \<Rightarrow> ResponseWriter \<Rightarrow> ResponseWriter" where
  "Header_Set k v w = (if wroteHeader w = None then w\<lparr>header := (header w)(k \<mapsto> v)\<rparr> else w)"

definition WriteHeader :: "nat \<Rightarrow> ResponseWriter \<Rightarrow> ResponseWriter" where
  "WriteHeader code w = (if wroteHeader w = None then w\<lparr>wroteHeader := Some code\<rparr> else w)"

definition Write :: "string \<Rightarrow> ResponseWriter \<Rightarrow> ResponseWriter" where
  "Write b w = (WriteHeader 200 w)\<lparr>body := body w @ b\<rparr>"

definition statusCode :: "ResponseWriter \<Rightarrow> nat" where
  "statusCode w = (case wroteHeader w of None \<Rightarrow> 200 | Some code \<Rightarrow> code)"

definition StatusOK :: nat where
  "StatusOK = 200"

definition StatusUnauthorized :: nat where
  "StatusUnauthorized = 401"

definition StatusInternalServerError :: nat where
  "StatusInternalServerError = 500"

text \<open>The state a handler works on: the response writer and the trace.\<close>

record hstate =
  writer :: ResponseWriter
  trace :: "event list"

definition emit :: "event list \<Rightarrow> hstate \<Rightarrow> hstate" where
  "emit evs st = st\<lparr>trace := trace st @ evs\<rparr>"

definition respond :: "(ResponseWriter \<Rightarrow> ResponseWriter) \<Rightarrow> hstate \<Rightarrow> hstate" where
  "respond f st = st\<lparr>writer := f (writer st)\<rparr>"

section \<open>The messages of \<^verbatim>\<open>slack_messages.go\<close>\<close>

text \<open>
  The four message constants, byte for byte (the raw string literals keep the tabs and
  line feeds of the source file). A template with \<^verbatim>\<open>%s\<close> verbs is the function that
  \<^verbatim>\<open>fmt.Sprintf\<close> makes of it: each verb is replaced by its string argument, unchanged.
\<close>

definition tabs :: "nat \<Rightarrow> string" where
  "tabs n = replicate n (CHR 0x09)"

definition nl :: string where
  "nl = [CHR 0x0A]"

definition roomTemplate :: "string \<Rightarrow> string \<Rightarrow> string \<Rightarrow> string" where
  \<open>roomTemplate a b c =
     concat [
       ''{'', nl,
       tabs 2, ''"response_type":"in_channel",'', nl,
       tabs 2, ''"attachments":[{'', nl,
       tabs 3, ''"fallback":"Meeting started on '', a, ''",'', nl,
       tabs 3, ''"title":"Meeting started on '', b, ''",'', nl,
       tabs 3, ''"color":"#3AA3E3",'', nl,
       tabs 3, ''"attachment_type":"default",'', nl,
       tabs 3, ''"actions":[{'', nl,
       tabs 4, ''"name":"join",'', nl,
       tabs 4, ''"text":"Join",'', nl,
       tabs 4, ''"type":"button",'', nl,
       tabs 4, ''"url":"'', c, ''",'', nl,
       tabs 4, ''"style":"primary"'', nl,
       tabs 3, ''}]'', nl,
       tabs 2, ''}]'', nl,
       tabs 1, ''}'']\<close>

definition userTemplate :: "string \<Rightarrow> string \<Rightarrow> string \<Rightarrow> string" where
  \<open>userTemplate a b c =
     concat [
       ''{'', nl,
       tabs 2, ''"response_type":"ephemeral",'', nl,
       tabs 2, ''"attachments":[{'', nl,
       tabs 3, ''"fallback":"Invitations have been sent for your meeting on '', a, ''",'', nl,
       tabs 3, ''"title":"Invitations have been sent for your meeting on '', b, ''",'', nl,
       tabs 3, ''"color":"#3AA3E3",'', nl,
       tabs 3, ''"attachment_type":"default",'', nl,
       tabs 3, ''"actions":[{'', nl,
       tabs 4, ''"name":"join",'', nl,
       tabs 4, ''"text":"Join",'', nl,
       tabs 4, ''"type":"button",'', nl,
       tabs 4, ''"url":"'', c, ''",'', nl,
       tabs 4, ''"style":"primary"'', nl,
       tabs 3, ''}]'', nl,
       tabs 2, ''}]'', nl,
       tabs 1, ''}'']\<close>

definition helpMessage :: "string" where
  \<open>helpMessage =
     concat [
       ''{'', nl,
       tabs 2, ''"response_type":"ephemeral",'', nl,
       tabs 2, ''"text":"How to use /jitsi...",'', nl,
       tabs 2, ''"attachments":[{'', nl,
       tabs 3, ''"text":"To share a conference link with the channel, use '', [CHR 0x27], ''/jitsi'', [CHR 0x27], ''. Now everyone can join.'', [CHR 0x5C], ''nTo share a conference link with users, use '', [CHR 0x27], ''jitsi @bob @alice'', [CHR 0x27], ''. Now you can meet with Bob and Alice."'', nl,
       tabs 2, ''}]'', nl,
       tabs 1, ''}'']\<close>

definition installMessage :: "string \<Rightarrow> string" where
  \<open>installMessage a =
     concat [
       ''{'', nl,
       tabs 2, ''"response_type":"ephemeral",'', nl,
       tabs 2, ''"text":"Please install the jitsi meet app to integrate with your slack workspace.",'', nl,
       tabs 2, ''"attachments":[{"text":"'', a, ''"}]'', nl,
       tabs 1, ''}'']\<close>

section \<open>\<^verbatim>\<open>MeetingGenerator.New\<close>\<close>

text \<open>
  The room name is drawn first, then the server configuration is read; a read error is
  returned with no meeting. The two closures capture \<open>teamID\<close>, \<open>teamName\<close> and the
  meeting's room name and URL, which are not assigned again after the closure is made.
\<close>

definition MeetingGenerator_New ::
  "library \<Rightarrow> MeetingGenerator \<Rightarrow> string \<Rightarrow> string \<Rightarrow> event list \<Rightarrow> (error + Meeting) \<times> event list"
where
  "MeetingGenerator_New lib m teamID teamName tr =
     (let roomName = RandomName lib tr;
          tr1 = tr @ [EvRandomName]
      in case ServerConfigReader m tr1 teamID of
           Inl err \<Rightarrow> (Inl err, tr1 @ [EvConfigGet teamID])
         | Inr srv \<Rightarrow>
             let url =
                   (if TenantScopedURLs srv
                    then ServerCfg.Server srv @ ''/'' @ strings_ToLower (unicodeLower lib) teamName
                           @ ''/'' @ roomName
                    else ServerCfg.Server srv @ ''/'' @ roomName)
             in (Inr \<lparr>RoomName = roomName,
                      URL = url,
                      Host = ServerCfg.Server srv,
                      AuthenticatedURL =
                        (if AuthenticatedURLSupport srv
                         then (\<lambda>userID userName avatarURL t.
                                 let input = \<lparr>TenantID = teamID, TenantName = teamName,
                                              RoomClaim = roomName, UserID = userID,
                                              UserName = userName, AvatarURL = avatarURL\<rparr>
                                 in case MeetingTokenGenerator m t input of
                                      Inl err \<Rightarrow> (([], Some err), t @ [EvCreateJWT input])
                                    | Inr jwt \<Rightarrow>
                                        ((url @ ''?jwt='' @ jwt, None), t @ [EvCreateJWT input]))
                         else (\<lambda>userID userName avatarURL t. ((url, None), t)))\<rparr>,
                 tr1 @ [EvConfigGet teamID]))"

section \<open>\<^verbatim>\<open>slack_messages.go\<close>: the two functions\<close>

definition sendPersonalizedInvite ::
  "library \<Rightarrow> string \<Rightarrow> string \<Rightarrow> string \<Rightarrow> Meeting \<Rightarrow> event list \<Rightarrow> error option \<times> event list"
where
  "sendPersonalizedInvite lib token hostID userID meeting tr =
     (case GetUserInfo lib tr token userID of
        Inl err \<Rightarrow> (Some err, tr @ [EvGetUserInfo token userID])
      | Inr userInfo \<Rightarrow>
          let msg = ''<@'' @ hostID @ ''> would like you to join a meeting on '' @ Host meeting
          in (case AuthenticatedURL meeting (ID userInfo) (Name userInfo) (Image192 userInfo)
                     (tr @ [EvGetUserInfo token userID]) of
                ((meetingURL, Some err), tr2) \<Rightarrow> (Some err, tr2)
              | ((meetingURL, None), tr2) \<Rightarrow>
                  (case OpenConversation lib tr2 token userID of
                     Inl err \<Rightarrow> (Some err, tr2 @ [EvOpenConversation token userID])
                   | Inr channelID \<Rightarrow>
                       (PostMessage lib (tr2 @ [EvOpenConversation token userID])
                          token channelID msg meetingURL,
                        tr2 @ [EvOpenConversation token userID,
                               EvPostMessage token channelID msg meetingURL]))))"

definition joinPersonalMeetingMsg ::
  "library \<Rightarrow> string \<Rightarrow> string \<Rightarrow> Meeting \<Rightarrow> event list \<Rightarrow> (string \<times> error option) \<times> event list"
where
  "joinPersonalMeetingMsg lib token userID meeting tr =
     (case GetUserInfo lib tr token userID of
        Inl err \<Rightarrow> (([], Some err), tr @ [EvGetUserInfo token userID])
      | Inr userInfo \<Rightarrow>
          (case AuthenticatedURL meeting (ID userInfo) (Name userInfo) (Image192 userInfo)
                  (tr @ [EvGetUserInfo token userID]) of
             ((meetingURL, Some err), tr2) \<Rightarrow> (([], Some err), tr2)
           | ((meetingURL, None), tr2) \<Rightarrow>
               ((userTemplate (Host meeting) (Host meeting) meetingURL, None), tr2)))"

section \<open>\<^verbatim>\<open>handlers.go\<close>: the slash command\<close>

definition handleRequestValidation ::
  "library \<Rightarrow> request \<Rightarrow> string \<Rightarrow> hstate \<Rightarrow> bool \<times> hstate"
where
  "handleRequestValidation lib r secret st =
     (let ts = Header_Get (Header r) (RequestTimestampHeader lib);
          sig = Header_Get (Header r) (RequestSignatureHeader lib)
      in if ts = [] \<or> sig = [] then (False, respond (WriteHeader StatusUnauthorized) st)
         else
           (case Body r of
              Inl err \<Rightarrow>
                (False, respond (WriteHeader StatusInternalServerError) (emit [EvReadBody] st))
            | Inr b \<Rightarrow>
                if \<not> ValidRequest lib secret b ts sig
                then (False, respond (WriteHeader StatusUnauthorized)
                               (emit [EvReadBody, EvValidRequest secret b ts sig] st))
                else (True, emit [EvReadBody, EvValidRequest secret b ts sig] st)))"

definition helpHandler :: "ResponseWriter \<Rightarrow> ResponseWriter" where
  "helpHandler w =
     Write helpMessage (WriteHeader StatusOK (Header_Set ''Content-type'' ''application/json'' w))"

definition install :: "string \<Rightarrow> ResponseWriter \<Rightarrow> ResponseWriter" where
  "install sharableURL w =
     Write (installMessage sharableURL)
       (WriteHeader StatusOK (Header_Set ''Content-type'' ''application/json'' w))"

text \<open>
  \<^verbatim>\<open>configureServer\<close>. The two slice reads, \<^verbatim>\<open>configuration[1]\<close> and
  \<^verbatim>\<open>FindAllStringSubmatch(text, -1)[0]\<close>, panic out of range; the read \<^verbatim>\<open>[1]\<close> of a
  match (its group) is the second component of the pair.
\<close>

definition configureServer :: "SlashCommandHandlers \<Rightarrow> request \<Rightarrow> hstate \<Rightarrow> panic + hstate" where
  "configureServer s r st =
     (let teamID = PostFormValue r ''team_id'';
          text = PostFormValue r ''text'';
          configuration = strings_Split text CHR '' ''
      in case index configuration 1 of
           Inl p \<Rightarrow> Inl p
         | Inr c1 \<Rightarrow>
             if c1 = ''default'' then
               (case Remove (ServerConfigWriter s) (trace st) teamID of
                  Some err \<Rightarrow>
                    Inr (respond (WriteHeader StatusInternalServerError)
                           (emit [EvConfigRemove teamID, EvLog ''defaulting server'' err] st))
                | None \<Rightarrow>
                    Inr (respond
                           (\<lambda>w. Write ''Your team's conferences will now be hosted on https://meet.jit.si''
                                  (WriteHeader StatusOK w))
                           (emit [EvConfigRemove teamID] st)))
             else if \<not> serverConfigRE_MatchString text then
               Inr (respond
                      (\<lambda>w. Write ''A proper conference host must be provided.''
                             (WriteHeader StatusOK
                                (Header_Set ''Content-type'' ''application/json'' w)))
                      st)
             else
               (case index (serverConfigRE_FindAllStringSubmatch text) 0 of
                  Inl p \<Rightarrow> Inl p
                | Inr m \<Rightarrow>
                    let host = strings_Trim (snd m) ''<>'';
                        d = \<lparr>TeamID = teamID, Server = host\<rparr>
                    in (case Store (ServerConfigWriter s) (trace st) d of
                          Some err \<Rightarrow>
                            Inr (respond (WriteHeader StatusInternalServerError)
                                   (emit [EvConfigStore d, EvLog ''configuring server'' err] st))
                        | None \<Rightarrow>
                            Inr (respond
                                   (\<lambda>w. Write (''Your team's conferences will now be hosted on ''
                                                 @ host @ nl
                                                 @ ''Run `/jitsi server default` if you'' @ [CHR 0x27]
                                                 @ ''d like to continue using https://meet.jit.si'')
                                          (WriteHeader StatusOK
                                             (Header_Set ''Content-type'' ''application/json'' w)))
                                   (emit [EvConfigStore d] st)))))"

text \<open>
  The loop of \<^verbatim>\<open>dispatchInvites\<close> over the matches. \<^term>\<open>Return\<close>: the handler
  returned from inside the loop; \<^term>\<open>Continue\<close>: the loop ran to its end and the
  handler goes on behind it.
\<close>

datatype control = Return | Continue

definition isCredentialError :: "error \<Rightarrow> bool" where
  "isCredentialError err \<longleftrightarrow>
     err = errInvalidAuth \<or> err = errInactiveAccount \<or> err = errMissingAuthToken"

fun inviteLoop ::
  "library \<Rightarrow> SlashCommandHandlers \<Rightarrow> string \<Rightarrow> string \<Rightarrow> Meeting \<Rightarrow> (string \<times> string) list
     \<Rightarrow> hstate \<Rightarrow> control \<times> hstate"
where
  "inviteLoop lib s token callerID meeting [] st = (Continue, st)"
| "inviteLoop lib s token callerID meeting (match # matches) st =
     (case sendPersonalizedInvite lib token callerID (snd match) meeting (trace st) of
        (None, tr1) \<Rightarrow> inviteLoop lib s token callerID meeting matches (st\<lparr>trace := tr1\<rparr>)
      | (Some err, tr1) \<Rightarrow>
          if isCredentialError err
          then (Return, respond (install (SharableURL s)) (st\<lparr>trace := tr1\<rparr>))
          else inviteLoop lib s token callerID meeting matches
                 (emit [EvLog ''inviting user'' err] (st\<lparr>trace := tr1\<rparr>)))"

definition dispatchInvites :: "library \<Rightarrow> SlashCommandHandlers \<Rightarrow> request \<Rightarrow> hstate \<Rightarrow> hstate" where
  "dispatchInvites lib s r st =
     (let teamID = PostFormValue r ''team_id'';
          teamName = PostFormValue r ''team_domain''
      in case MeetingGenerator_New lib (MeetingGenerator s) teamID teamName (trace st) of
           (Inl err, tr1) \<Rightarrow>
             respond (WriteHeader StatusInternalServerError)
               (emit [EvLog ''generating meeting'' err] (st\<lparr>trace := tr1\<rparr>))
         | (Inr meeting, tr1) \<Rightarrow>
             let text = PostFormValue r ''text'';
                 matches = atMentionRE_FindAllStringSubmatch text
             in if matches = [] then
                  respond
                    (\<lambda>w. Write (roomTemplate (Host meeting) (Host meeting) (URL meeting))
                           (WriteHeader StatusOK
                              (Header_Set ''Content-type'' ''application/json'' w)))
                    (st\<lparr>trace := tr1\<rparr>)
                else
                  (case TokenReader s tr1 teamID of
                     Inl err \<Rightarrow>
                       if err = errMissingAuthToken
                       then respond (install (SharableURL s)) (st\<lparr>trace := tr1 @ [EvTokenGet teamID]\<rparr>)
                       else respond (WriteHeader StatusInternalServerError)
                              (st\<lparr>trace := tr1 @ [EvTokenGet teamID, EvLog ''retrieving token'' err]\<rparr>)
                   | Inr token \<Rightarrow>
                       let callerID = PostFormValue r ''user_id''
                       in (case inviteLoop lib s token callerID meeting matches
                                  (st\<lparr>trace := tr1 @ [EvTokenGet teamID]\<rparr>) of
                             (Return, st1) \<Rightarrow> st1
                           | (Continue, st1) \<Rightarrow>
                               (case joinPersonalMeetingMsg lib token callerID meeting (trace st1) of
                                  ((resp, Some err), tr2) \<Rightarrow>
                                    if isCredentialError err
                                    then respond (install (SharableURL s)) (st1\<lparr>trace := tr2\<rparr>)
                                    else respond
                                           (\<lambda>w. Write resp
                                                  (WriteHeader StatusOK
                                                     (Header_Set ''Content-type'' ''application/json'' w)))
                                           (st1\<lparr>trace := tr2 @ [EvLog ''inviting user'' err]\<rparr>)
                                | ((resp, None), tr2) \<Rightarrow>
                                    respond
                                      (\<lambda>w. Write resp
                                             (WriteHeader StatusOK
                                                (Header_Set ''Content-type'' ''application/json'' w)))
                                      (st1\<lparr>trace := tr2\<rparr>)))))"

text \<open>
  \<^verbatim>\<open>Jitsi\<close>, the handler of the slash command. A panic of \<^verbatim>\<open>configureServer\<close> leaves
  the handler: nothing is written behind it.
\<close>

definition Jitsi :: "library \<Rightarrow> SlashCommandHandlers \<Rightarrow> request \<Rightarrow> hstate \<Rightarrow> panic + hstate" where
  "Jitsi lib s r st =
     (case handleRequestValidation lib r (SlackSigningSecret s) st of
        (False, st1) \<Rightarrow> Inr st1
      | (True, st1) \<Rightarrow>
          (case ParseForm r of
             Some err \<Rightarrow>
               Inr (respond (WriteHeader StatusInternalServerError)
                      (emit [EvLog ''unable to parse form data'' err] st1))
           | None \<Rightarrow>
               let text = PostFormValue r ''text''
               in if helpCmdRE_MatchString text then Inr (respond helpHandler st1)
                  else if serverCmdRE_MatchString text then configureServer s r st1
                  else Inr (dispatchInvites lib s r st1)))"

section \<open>Notions the properties are stated with\<close>

text \<open>
  A mention token starts at position \<open>i\<close> of a text: the bytes \<^verbatim>\<open><@\<close> stand there,
  followed by at least one byte of an identifier (any byte but \<^verbatim>\<open>>\<close> and \<^verbatim>\<open>|\<close>).
\<close>

definition hasMentionAt :: "string \<Rightarrow> nat \<Rightarrow> bool" where
  "hasMentionAt s i \<longleftrightarrow>
     i + 2 < length s \<and> s ! i = CHR ''<'' \<and> s ! (i + 1) = CHR ''@'' \<and> isMentionChar (s ! (i + 2))"

text \<open>
  A text with \<open>N\<close> mention tokens, written by its parts: \<open>N\<close> pairs of an identifier and
  the gap behind its token (\<^term>\<open>mentionText\<close>), with a gap in front. The parts are
  well formed (\<^term>\<open>tokensOK\<close>) when every identifier is non-empty and has no \<^verbatim>\<open>>\<close> or
  \<^verbatim>\<open>|\<close>, ends where the text ends or a \<^verbatim>\<open>>\<close> or \<^verbatim>\<open>|\<close> stands, and no token starts
  inside a gap (\<^term>\<open>gapOK\<close>, the gap read together with what follows it).
\<close>

definition gapOK :: "string \<Rightarrow> string \<Rightarrow> bool" where
  "gapOK gap rest \<longleftrightarrow> (\<forall>i < length gap. \<not> hasMentionAt (gap @ rest) i)"

fun mentionText :: "(string \<times> string) list \<Rightarrow> string" where
  "mentionText [] = []"
| "mentionText ((uid, gap) # ts) = ''<@'' @ uid @ gap @ mentionText ts"

fun tokensOK :: "(string \<times> string) list \<Rightarrow> bool" where
  "tokensOK [] \<longleftrightarrow> True"
| "tokensOK ((uid, gap) # ts) \<longleftrightarrow>
     uid \<noteq> [] \<and> list_all isMentionChar uid
     \<and> (case gap @ mentionText ts of [] \<Rightarrow> True | c # cs \<Rightarrow> \<not> isMentionChar c)
     \<and> gapOK gap (mentionText ts) \<and> tokensOK ts"

subsection \<open>A concrete installation, for the examples\<close>

text \<open>
  A workspace whose Slack client cannot find the user \<open>UGONE\<close>, cannot open a
  conversation with \<open>UBUSY\<close> (an error that is not about the credential) and is told
  \<^verbatim>\<open>invalid_auth\<close> when it opens one with \<open>UREVOKED\<close>; every other call succeeds.
\<close>

definition demoLibrary :: library where
  "demoLibrary =
     \<lparr>RandomName = (\<lambda>tr. ''QuietRiverRunsFar''),
      ValidRequest = (\<lambda>secret b ts sig. sig = ''v0=good''),
      RequestTimestampHeader = ''X-Slack-Request-Timestamp'',
      RequestSignatureHeader = ''X-Slack-Signature'',
      unicodeLower = id,
      GetUserInfo = (\<lambda>tr token uid.
         if uid = ''UGONE'' then Inl ''user_not_found''
         else Inr \<lparr>ID = uid, Name = ''name-'' @ uid, Image192 = ''https://img/'' @ uid\<rparr>),
      OpenConversation = (\<lambda>tr token uid.
         if uid = ''UREVOKED'' then Inl ''invalid_auth''
         else if uid = ''UBUSY'' then Inl ''channel_not_found''
         else Inr (''D'' @ uid)),
      PostMessage = (\<lambda>tr token channel msg url. None)\<rparr>"

definition demoCfg :: "bool \<Rightarrow> bool \<Rightarrow> ServerCfg" where
  "demoCfg tenant auth =
     \<lparr>ServerCfg.Server = ''https://meet.example'', TenantScopedURLs = tenant,
      AuthenticatedURLSupport = auth\<rparr>"

definition demoGenerator :: "ServerCfg \<Rightarrow> MeetingGenerator" where
  "demoGenerator cfg =
     \<lparr>ServerConfigReader = (\<lambda>tr team. Inr cfg),
      MeetingTokenGenerator = (\<lambda>tr input. Inr (''tok.'' @ UserID input))\<rparr>"

definition demoHandlers :: "ServerCfg \<Rightarrow> SlashCommandHandlers" where
  "demoHandlers cfg =
     \<lparr>MeetingGenerator = demoGenerator cfg,
      SlackSigningSecret = ''secret'',
      TokenReader = (\<lambda>tr team. Inr ''xoxb-1''),
      SharableURL = ''https://example.test/install'',
      ServerConfigWriter = \<lparr>Store = (\<lambda>tr d. None), Remove = (\<lambda>tr team. None)\<rparr>\<rparr>"

text \<open>A signed slash command of user \<open>caller\<close> in workspace \<open>T1\<close> (domain \<open>Acme\<close>).\<close>

definition demoRequest :: "string \<Rightarrow> string \<Rightarrow> request" where
  "demoRequest caller text =
     \<lparr>Header = [''X-Slack-Request-Timestamp'' \<mapsto> [''1531420618''],
                 ''X-Slack-Signature'' \<mapsto> [''v0=good'']],
      Body = Inr ''payload'',
      ParseForm = None,
      PostForm = [''text'' \<mapsto> [text], ''team_id'' \<mapsto> [''T1''],
                  ''team_domain'' \<mapsto> [''Acme''], ''user_id'' \<mapsto> [caller]]\<rparr>"

text \<open>The same command with no signature header.\<close>

definition unsignedRequest :: "string \<Rightarrow> string \<Rightarrow> request" where
  "unsignedRequest caller text =
     (demoRequest caller text)\<lparr>Header := [''X-Slack-Request-Timestamp'' \<mapsto> [''1531420618'']]\<rparr>"

definition start :: hstate where
  "start = \<lparr>writer = newResponseWriter, trace = []\<rparr>"

section \<open>Evaluation of the examples\<close>

lemmas demo_defs =
  demoLibrary_def demoHandlers_def demoGenerator_def demoCfg_def demoRequest_def
  unsignedRequest_def start_def

lemmas handler_defs =
  Jitsi_def handleRequestValidation_def Header_Get_def PostFormValue_def respond_def emit_def
  StatusOK_def StatusUnauthorized_def StatusInternalServerError_def
  helpCmdRE_MatchString_def serverCmdRE_MatchString_def dispatchInvites_def
  configureServer_def index_def
  MeetingGenerator_New_def strings_ToLower_def asciiLower_def
  atMentionRE_matchAt_def isMentionChar_def
  sendPersonalizedInvite_def joinPersonalMeetingMsg_def isCredentialError_def
  errInvalidAuth_def errInactiveAccount_def errMissingAuthToken_def
  Write_def WriteHeader_def Header_Set_def newResponseWriter_def statusCode_def
  install_def helpHandler_def Let_def

section \<open>Command routing\<close>

lemma matchLit_prefix: "matchLit p s \<noteq> None \<longleftrightarrow> prefix p s"
  by (induction p s rule: matchLit.induct) auto

lemma helpCmdRE_prefix: "helpCmdRE_MatchString s \<longleftrightarrow> prefix ''help'' s"
  unfolding helpCmdRE_MatchString_def by (rule matchLit_prefix)

lemma serverCmdRE_prefix: "serverCmdRE_MatchString s \<longleftrightarrow> prefix ''server'' s"
  unfolding serverCmdRE_MatchString_def by (rule matchLit_prefix)

lemma helpHandler_fresh:
  "statusCode (helpHandler newResponseWriter) = 200
   \<and> body (helpHandler newResponseWriter) = helpMessage"
  by (simp add: helpHandler_def Write_def WriteHeader_def Header_Set_def newResponseWriter_def
      statusCode_def StatusOK_def)

text \<open>
  Claim C5. Once the request is validated and its form parsed, the command text alone
  decides the route, in this order: a text with the prefix \<^verbatim>\<open>help\<close> gets the help
  response; otherwise a text with the prefix \<^verbatim>\<open>server\<close> goes to \<^verbatim>\<open>configureServer\<close>;
  every other text goes to \<^verbatim>\<open>dispatchInvites\<close>, the empty text among them.
\<close>

theorem routing_priority:
  assumes "handleRequestValidation lib r (SlackSigningSecret s) st = (True, st1)"
    and "ParseForm r = None"
  shows "Jitsi lib s r st =
           (if prefix ''help'' (PostFormValue r ''text'') then Inr (respond helpHandler st1)
            else if prefix ''server'' (PostFormValue r ''text'') then configureServer s r st1
            else Inr (dispatchInvites lib s r st1))
         \<and> (PostFormValue r ''text'' = [] \<longrightarrow> Jitsi lib s r st = Inr (dispatchInvites lib s r st1))"
  using assms by (simp add: Jitsi_def helpCmdRE_prefix serverCmdRE_prefix)

theorem routing_priority_witness:
  "handleRequestValidation demoLibrary (demoRequest ''U1'' ''help me'')
       (SlackSigningSecret (demoHandlers (demoCfg True False))) start
     = (True, emit [EvReadBody, EvValidRequest ''secret'' ''payload'' ''1531420618'' ''v0=good''] start)
   \<and> ParseForm (demoRequest ''U1'' ''help me'') = None
   \<and> Jitsi demoLibrary (demoHandlers (demoCfg True False)) (demoRequest ''U1'' ''help me'') start
       = Inr (respond helpHandler
                (emit [EvReadBody, EvValidRequest ''secret'' ''payload'' ''1531420618'' ''v0=good'']
                   start))
   \<and> Jitsi demoLibrary (demoHandlers (demoCfg True False)) (demoRequest ''U1'' ''server default'') start
       = configureServer (demoHandlers (demoCfg True False)) (demoRequest ''U1'' ''server default'')
           (emit [EvReadBody, EvValidRequest ''secret'' ''payload'' ''1531420618'' ''v0=good'']
              start)
   \<and> Jitsi demoLibrary (demoHandlers (demoCfg True False)) (demoRequest ''U1'' []) start
       = Inr (dispatchInvites demoLibrary (demoHandlers (demoCfg True False)) (demoRequest ''U1'' [])
                (emit [EvReadBody, EvValidRequest ''secret'' ''payload'' ''1531420618'' ''v0=good'']
                   start))
   \<and> Jitsi demoLibrary (demoHandlers (demoCfg True False)) (demoRequest ''U1'' ''helpserver'') start
       = Inr (respond helpHandler
                (emit [EvReadBody, EvValidRequest ''secret'' ''payload'' ''1531420618'' ''v0=good'']
                   start))"
proof -
  have v: "\<And>text. handleRequestValidation demoLibrary (demoRequest ''U1'' text)
       (SlackSigningSecret (demoHandlers (demoCfg True False))) start
     = (True, emit [EvReadBody, EvValidRequest ''secret'' ''payload'' ''1531420618'' ''v0=good''] start)"
    by (simp add: demo_defs handleRequestValidation_def Header_Get_def emit_def)
  have p: "\<And>text. ParseForm (demoRequest ''U1'' text) = None"
    by (simp add: demoRequest_def)
  have t: "\<And>text. PostFormValue (demoRequest ''U1'' text) ''text'' = text"
    by (simp add: demoRequest_def PostFormValue_def)
  from routing_priority [OF v p, of "''help me''"] routing_priority [OF v p, of "''server default''"]
    routing_priority [OF v p, of "[]"] routing_priority [OF v p, of "''helpserver''"] t v p
  show ?thesis
    by simp
qed

section \<open>Request validation\<close>

lemma Header_Get_empty_iff:
  "Header_Get h k = [] \<longleftrightarrow> h k = None \<or> h k = Some [] \<or> (\<exists>vs. h k = Some ([] # vs))"
  by (auto simp: Header_Get_def split: option.splits list.splits)

text \<open>
  Claim C9. When the timestamp header or the signature header is absent or empty
  (\<^verbatim>\<open>Header.Get\<close> gives the empty string in both cases), validation fails and the
  handler returns at once: the only thing done is \<^verbatim>\<open>WriteHeader(401)\<close>. The trace is
  unchanged, so the body was not read, \<^verbatim>\<open>ValidRequest\<close> (the HMAC) was not called,
  and nothing else was; on a fresh response writer the answer is status 401 with no body.
\<close>

theorem missing_header_fails_closed:
  assumes "Header_Get (Header r) (RequestTimestampHeader lib) = []
           \<or> Header_Get (Header r) (RequestSignatureHeader lib) = []"
  shows "handleRequestValidation lib r secret st
           = (False, respond (WriteHeader StatusUnauthorized) st)
       \<and> Jitsi lib s r st = Inr (respond (WriteHeader StatusUnauthorized) st)
       \<and> trace (respond (WriteHeader StatusUnauthorized) st) = trace st
       \<and> statusCode (writer (respond (WriteHeader StatusUnauthorized)
            \<lparr>writer = newResponseWriter, trace = tr\<rparr>)) = 401
       \<and> body (writer (respond (WriteHeader StatusUnauthorized)
            \<lparr>writer = newResponseWriter, trace = tr\<rparr>)) = []"
  using assms
  by (auto simp: handleRequestValidation_def Jitsi_def Let_def respond_def WriteHeader_def
      statusCode_def StatusUnauthorized_def newResponseWriter_def)

theorem missing_header_fails_closed_witness:
  "Header_Get (Header (unsignedRequest ''U1'' ''<@UA>'')) (RequestSignatureHeader demoLibrary) = []
   \<and> Jitsi demoLibrary (demoHandlers (demoCfg True False)) (unsignedRequest ''U1'' ''<@UA>'') start
       = Inr (respond (WriteHeader StatusUnauthorized) start)
   \<and> trace (respond (WriteHeader StatusUnauthorized) start) = []
   \<and> statusCode (writer (respond (WriteHeader StatusUnauthorized) start)) = 401
   \<and> body (writer (respond (WriteHeader StatusUnauthorized) start)) = []"
proof -
  have h: "Header_Get (Header (unsignedRequest ''U1'' ''<@UA>'')) (RequestSignatureHeader demoLibrary) = []"
    by (simp add: demo_defs Header_Get_def)
  then have "Header_Get (Header (unsignedRequest ''U1'' ''<@UA>'')) (RequestTimestampHeader demoLibrary) = []
           \<or> Header_Get (Header (unsignedRequest ''U1'' ''<@UA>'')) (RequestSignatureHeader demoLibrary) = []"
    by simp
  from missing_header_fails_closed [OF this, of "SlackSigningSecret (demoHandlers (demoCfg True False))"
      start "demoHandlers (demoCfg True False)" "[]"] h
  show ?thesis
    by (simp add: start_def)
qed

section \<open>The meeting and its URLs\<close>

lemma MeetingGenerator_New_trace:
  "snd (MeetingGenerator_New lib m teamID teamName tr) = tr @ [EvRandomName, EvConfigGet teamID]"
  by (simp add: MeetingGenerator_New_def Let_def split: sum.splits)

text \<open>
  Claim C8. When the server configuration of the workspace can be read, \<^verbatim>\<open>New\<close>
  returns a meeting whose room name is the generated name, whose host is the
  configured server and whose URL is \<^verbatim>\<open>host/lowercased team name/room name\<close> when the
  configuration has \<^verbatim>\<open>TenantScopedURLs\<close>, and \<^verbatim>\<open>host/room name\<close> otherwise.
\<close>

theorem meeting_base_url:
  assumes "ServerConfigReader m (tr @ [EvRandomName]) teamID = Inr srv"
  shows "\<exists>mtg. MeetingGenerator_New lib m teamID teamName tr
                 = (Inr mtg, tr @ [EvRandomName, EvConfigGet teamID])
            \<and> RoomName mtg = RandomName lib tr
            \<and> Host mtg = ServerCfg.Server srv
            \<and> URL mtg =
                 (if TenantScopedURLs srv
                  then ServerCfg.Server srv @ ''/'' @ strings_ToLower (unicodeLower lib) teamName
                         @ ''/'' @ RoomName mtg
                  else ServerCfg.Server srv @ ''/'' @ RoomName mtg)"
  using assms by (auto simp: MeetingGenerator_New_def Let_def)

theorem meeting_base_url_witness:
  "ServerConfigReader (demoGenerator (demoCfg True False)) ([] @ [EvRandomName]) ''T1''
     = Inr (demoCfg True False)
   \<and> ServerConfigReader (demoGenerator (demoCfg False False)) ([] @ [EvRandomName]) ''T1''
     = Inr (demoCfg False False)
   \<and> (\<exists>mtg. MeetingGenerator_New demoLibrary (demoGenerator (demoCfg True False)) ''T1'' ''Acme'' []
               = (Inr mtg, [EvRandomName, EvConfigGet ''T1''])
          \<and> URL mtg = ''https://meet.example/acme/QuietRiverRunsFar'')
   \<and> (\<exists>mtg. MeetingGenerator_New demoLibrary (demoGenerator (demoCfg False False)) ''T1'' ''Acme'' []
               = (Inr mtg, [EvRandomName, EvConfigGet ''T1''])
          \<and> URL mtg = ''https://meet.example/QuietRiverRunsFar'')"
proof -
  have a: "ServerConfigReader (demoGenerator (demoCfg True False)) ([] @ [EvRandomName]) ''T1''
     = Inr (demoCfg True False)"
    and b: "ServerConfigReader (demoGenerator (demoCfg False False)) ([] @ [EvRandomName]) ''T1''
     = Inr (demoCfg False False)"
    by (simp_all add: demoGenerator_def)
  from meeting_base_url [OF a, of demoLibrary "''Acme''"]
  have "\<exists>mtg. MeetingGenerator_New demoLibrary (demoGenerator (demoCfg True False)) ''T1'' ''Acme'' []
               = (Inr mtg, [EvRandomName, EvConfigGet ''T1''])
          \<and> URL mtg = ''https://meet.example/acme/QuietRiverRunsFar''"
    by (auto simp: demoCfg_def demoLibrary_def strings_ToLower_def asciiLower_def)
  moreover from meeting_base_url [OF b, of demoLibrary "''Acme''"]
  have "\<exists>mtg. MeetingGenerator_New demoLibrary (demoGenerator (demoCfg False False)) ''T1'' ''Acme'' []
               = (Inr mtg, [EvRandomName, EvConfigGet ''T1''])
          \<and> URL mtg = ''https://meet.example/QuietRiverRunsFar''"
    by (auto simp: demoCfg_def demoLibrary_def)
  ultimately show ?thesis
    using a b by blast
qed

text \<open>
  Claim C6. For a configuration with \<^verbatim>\<open>AuthenticatedURLSupport\<close>, the meeting's
  \<^verbatim>\<open>AuthenticatedURL\<close> calls \<^verbatim>\<open>CreateJWT\<close> once, with the team's ID and name, the
  meeting's room name as room claim and the three arguments as user ID, user name and
  avatar URL. When signing fails the error is returned, with the empty string for the
  URL; otherwise the result is the meeting's URL followed by \<^verbatim>\<open>?jwt=\<close> and the token.
  In \<^verbatim>\<open>sendPersonalizedInvite\<close> the three arguments are the recipient's: the ID, name
  and image that the Slack client's lookup of the recipient returned.
\<close>

theorem authenticated_url_signed:
  assumes "MeetingGenerator_New lib m teamID teamName tr = (Inr mtg, tr1)"
    and "ServerConfigReader m (tr @ [EvRandomName]) teamID = Inr srv"
    and "AuthenticatedURLSupport srv"
  shows "AuthenticatedURL mtg userID userName avatarURL t =
          (let input = \<lparr>TenantID = teamID, TenantName = teamName, RoomClaim = RoomName mtg,
                         UserID = userID, UserName = userName, AvatarURL = avatarURL\<rparr>
           in case MeetingTokenGenerator m t input of
                Inl err \<Rightarrow> (([], Some err), t @ [EvCreateJWT input])
              | Inr jwt \<Rightarrow> ((URL mtg @ ''?jwt='' @ jwt, None), t @ [EvCreateJWT input]))
       \<and> (GetUserInfo lib t token recipient = Inr userInfo \<longrightarrow>
            EvCreateJWT \<lparr>TenantID = teamID, TenantName = teamName, RoomClaim = RoomName mtg,
                          UserID = ID userInfo, UserName = Name userInfo,
                          AvatarURL = Image192 userInfo\<rparr>
              \<in> set (snd (sendPersonalizedInvite lib token hostID recipient mtg t)))"
proof -
  have cap: "\<And>userID userName avatarURL t. AuthenticatedURL mtg userID userName avatarURL t =
          (let input = \<lparr>TenantID = teamID, TenantName = teamName, RoomClaim = RoomName mtg,
                         UserID = userID, UserName = userName, AvatarURL = avatarURL\<rparr>
           in case MeetingTokenGenerator m t input of
                Inl err \<Rightarrow> (([], Some err), t @ [EvCreateJWT input])
              | Inr jwt \<Rightarrow> ((URL mtg @ ''?jwt='' @ jwt, None), t @ [EvCreateJWT input]))"
    using assms by (auto simp: MeetingGenerator_New_def Let_def split: sum.splits)
  have "GetUserInfo lib t token recipient = Inr userInfo \<Longrightarrow>
            EvCreateJWT \<lparr>TenantID = teamID, TenantName = teamName, RoomClaim = RoomName mtg,
                          UserID = ID userInfo, UserName = Name userInfo,
                          AvatarURL = Image192 userInfo\<rparr>
              \<in> set (snd (sendPersonalizedInvite lib token hostID recipient mtg t))"
    by (simp add: sendPersonalizedInvite_def cap Let_def split: sum.splits)
  with cap show ?thesis by blast
qed

theorem authenticated_url_signed_witness:
  "ServerConfigReader (demoGenerator (demoCfg True True)) ([] @ [EvRandomName]) ''T1''
     = Inr (demoCfg True True)
   \<and> AuthenticatedURLSupport (demoCfg True True)
   \<and> AuthenticatedURL
        (projr (fst (MeetingGenerator_New demoLibrary (demoGenerator (demoCfg True True))
                       ''T1'' ''Acme'' [])))
        ''UA'' ''alice'' ''https://img/UA'' []
      = ((''https://meet.example/acme/QuietRiverRunsFar?jwt=tok.UA'', None),
         [EvCreateJWT \<lparr>TenantID = ''T1'', TenantName = ''Acme'', RoomClaim = ''QuietRiverRunsFar'',
                        UserID = ''UA'', UserName = ''alice'', AvatarURL = ''https://img/UA''\<rparr>])
   \<and> GetUserInfo demoLibrary [] ''xoxb-1'' ''UB''
      = Inr \<lparr>ID = ''UB'', Name = ''name-UB'', Image192 = ''https://img/UB''\<rparr>
   \<and> EvCreateJWT \<lparr>TenantID = ''T1'', TenantName = ''Acme'', RoomClaim = ''QuietRiverRunsFar'',
                     UserID = ''UB'', UserName = ''name-UB'', AvatarURL = ''https://img/UB''\<rparr>
       \<in> set (snd (sendPersonalizedInvite demoLibrary ''xoxb-1'' ''U1'' ''UB''
                      (projr (fst (MeetingGenerator_New demoLibrary
                                     (demoGenerator (demoCfg True True)) ''T1'' ''Acme'' [])))
                      []))"
proof -
  let ?new = "MeetingGenerator_New demoLibrary (demoGenerator (demoCfg True True)) ''T1'' ''Acme'' []"
  have n: "?new = (Inr (projr (fst ?new)), snd ?new)"
    by (simp add: MeetingGenerator_New_def demoGenerator_def Let_def)
  have c: "ServerConfigReader (demoGenerator (demoCfg True True)) ([] @ [EvRandomName]) ''T1''
     = Inr (demoCfg True True)"
    by (simp add: demoGenerator_def)
  have a: "AuthenticatedURLSupport (demoCfg True True)"
    by (simp add: demoCfg_def)
  have r: "RoomName (projr (fst ?new)) = ''QuietRiverRunsFar''"
    and u: "URL (projr (fst ?new)) = ''https://meet.example/acme/QuietRiverRunsFar''"
    by (simp_all add: MeetingGenerator_New_def demo_defs Let_def strings_ToLower_def asciiLower_def)
  have g: "GetUserInfo demoLibrary [] ''xoxb-1'' ''UB''
      = Inr \<lparr>ID = ''UB'', Name = ''name-UB'', Image192 = ''https://img/UB''\<rparr>"
    by (simp add: demoLibrary_def)
  from authenticated_url_signed [OF n c a, of "''UA''" "''alice''" "''https://img/UA''" "[]"
      "''xoxb-1''" "''UB''" "\<lparr>ID = ''UB'', Name = ''name-UB'', Image192 = ''https://img/UB''\<rparr>" "''U1''"]
    r u c a g
  show ?thesis
    by (simp add: demoGenerator_def)
qed

text \<open>
  Claim C7. For a configuration without \<^verbatim>\<open>AuthenticatedURLSupport\<close>, the meeting's
  \<^verbatim>\<open>AuthenticatedURL\<close> returns the meeting's URL and a nil error whatever its three
  arguments are, and leaves the trace as it found it: it calls nothing, \<^verbatim>\<open>CreateJWT\<close>
  included.
\<close>

theorem authenticated_url_plain:
  assumes "MeetingGenerator_New lib m teamID teamName tr = (Inr mtg, tr1)"
    and "ServerConfigReader m (tr @ [EvRandomName]) teamID = Inr srv"
    and "\<not> AuthenticatedURLSupport srv"
  shows "AuthenticatedURL mtg userID userName avatarURL t = ((URL mtg, None), t)"
  using assms by (auto simp: MeetingGenerator_New_def Let_def)

theorem authenticated_url_plain_witness:
  "ServerConfigReader (demoGenerator (demoCfg True False)) ([] @ [EvRandomName]) ''T1''
     = Inr (demoCfg True False)
   \<and> \<not> AuthenticatedURLSupport (demoCfg True False)
   \<and> AuthenticatedURL
        (projr (fst (MeetingGenerator_New demoLibrary (demoGenerator (demoCfg True False))
                       ''T1'' ''Acme'' [])))
        ''UA'' ''alice'' ''https://img/UA'' [EvTokenGet ''T1'']
      = ((''https://meet.example/acme/QuietRiverRunsFar'', None), [EvTokenGet ''T1''])
   \<and> AuthenticatedURL
        (projr (fst (MeetingGenerator_New demoLibrary (demoGenerator (demoCfg True False))
                       ''T1'' ''Acme'' [])))
        ''UB'' ''bob'' [] [EvTokenGet ''T1'']
      = ((''https://meet.example/acme/QuietRiverRunsFar'', None), [EvTokenGet ''T1''])"
proof -
  let ?new = "MeetingGenerator_New demoLibrary (demoGenerator (demoCfg True False)) ''T1'' ''Acme'' []"
  have n: "?new = (Inr (projr (fst ?new)), snd ?new)"
    by (simp add: MeetingGenerator_New_def demoGenerator_def Let_def)
  have c: "ServerConfigReader (demoGenerator (demoCfg True False)) ([] @ [EvRandomName]) ''T1''
     = Inr (demoCfg True False)"
    by (simp add: demoGenerator_def)
  have a: "\<not> AuthenticatedURLSupport (demoCfg True False)"
    by (simp add: demoCfg_def)
  have u: "URL (projr (fst ?new)) = ''https://meet.example/acme/QuietRiverRunsFar''"
    by (simp add: MeetingGenerator_New_def demo_defs Let_def strings_ToLower_def asciiLower_def)
  from authenticated_url_plain [OF n c a, of "''UA''" "''alice''" "''https://img/UA''" "[EvTokenGet ''T1'']"]
    authenticated_url_plain [OF n c a, of "''UB''" "''bob''" "[]" "[EvTokenGet ''T1'']"] u c a
  show ?thesis
    by simp
qed

section \<open>Mention extraction\<close>

lemma matchAt_None_iff: "atMentionRE_matchAt s = None \<longleftrightarrow> \<not> hasMentionAt s 0"
proof (cases s)
  case Nil
  then show ?thesis by (simp add: atMentionRE_matchAt_def hasMentionAt_def)
next
  case s: (Cons a s1)
  show ?thesis
  proof (cases s1)
    case Nil
    with s show ?thesis by (simp add: atMentionRE_matchAt_def hasMentionAt_def)
  next
    case s1: (Cons b s2)
    show ?thesis
    proof (cases s2)
      case Nil
      with s s1 show ?thesis
        by (simp add: atMentionRE_matchAt_def hasMentionAt_def)
    next
      case (Cons c s3)
      with s s1 show ?thesis
        by (auto simp: atMentionRE_matchAt_def hasMentionAt_def)
    qed
  qed
qed

lemma hasMentionAt_Cons: "hasMentionAt (c # s) (Suc i) \<longleftrightarrow> hasMentionAt s i"
  by (simp add: hasMentionAt_def)

lemma gapOK_Nil: "gapOK [] rest"
  by (simp add: gapOK_def)

lemma gapOK_Cons:
  "gapOK (c # gap) rest \<longleftrightarrow> \<not> hasMentionAt (c # gap @ rest) 0 \<and> gapOK gap rest"
  unfolding gapOK_def
  by (auto simp: hasMentionAt_Cons less_Suc_eq_0_disj)

lemma FindAll_skip_gap:
  "gapOK gap rest \<Longrightarrow>
     atMentionRE_FindAllStringSubmatch (gap @ rest) = atMentionRE_FindAllStringSubmatch rest"
proof (induction gap)
  case Nil
  then show ?case by simp
next
  case (Cons c gap)
  then have "atMentionRE_matchAt (c # gap @ rest) = None" and "gapOK gap rest"
    by (simp_all add: gapOK_Cons matchAt_None_iff)
  with Cons.IH show ?case by simp
qed

lemma matchAt_token:
  assumes "uid \<noteq> []" and "list_all isMentionChar uid"
    and "case rest of [] \<Rightarrow> True | c # cs \<Rightarrow> \<not> isMentionChar c"
  shows "atMentionRE_matchAt (''<@'' @ uid @ rest) = Some (uid, rest)"
proof -
  have all: "\<And>x. x \<in> set uid \<Longrightarrow> isMentionChar x"
    using assms(2) by (simp add: list_all_iff)
  have r: "takeWhile isMentionChar rest = []" "dropWhile isMentionChar rest = rest"
    using assms(3) by (cases rest; simp)+
  have "takeWhile isMentionChar (uid @ rest) = uid"
    using all r by simp
  moreover have "dropWhile isMentionChar (uid @ rest) = rest"
    using all r by simp
  ultimately show ?thesis
    using assms(1) by (simp add: atMentionRE_matchAt_def)
qed

lemma FindAll_token:
  assumes "uid \<noteq> []" and "list_all isMentionChar uid"
    and "case rest of [] \<Rightarrow> True | c # cs \<Rightarrow> \<not> isMentionChar c"
  shows "atMentionRE_FindAllStringSubmatch (''<@'' @ uid @ rest)
           = (''<@'' @ uid, uid) # atMentionRE_FindAllStringSubmatch rest"
  using matchAt_token [OF assms] by simp

lemma FindAll_mentionText:
  "tokensOK ts \<Longrightarrow>
     atMentionRE_FindAllStringSubmatch (mentionText ts) = map (\<lambda>(uid, gap). (''<@'' @ uid, uid)) ts"
proof (induction ts)
  case Nil
  then show ?case by simp
next
  case (Cons t ts)
  obtain uid gap where t: "t = (uid, gap)" by (cases t)
  from Cons.prems t have ok: "uid \<noteq> []" "list_all isMentionChar uid"
      "case gap @ mentionText ts of [] \<Rightarrow> True | c # cs \<Rightarrow> \<not> isMentionChar c"
      "gapOK gap (mentionText ts)" "tokensOK ts"
    by simp_all
  have "atMentionRE_FindAllStringSubmatch (mentionText (t # ts))
          = (''<@'' @ uid, uid) # atMentionRE_FindAllStringSubmatch (gap @ mentionText ts)"
    using FindAll_token [OF ok(1,2,3)] t by simp
  also have "atMentionRE_FindAllStringSubmatch (gap @ mentionText ts)
               = atMentionRE_FindAllStringSubmatch (mentionText ts)"
    by (rule FindAll_skip_gap [OF ok(4)])
  finally show ?case
    using Cons.IH [OF ok(5)] t by simp
qed

text \<open>Every text is written by such parts, so the parts describe all command texts.\<close>

lemma matchLit_Some: "matchLit p s = Some r \<Longrightarrow> s = p @ r"
  by (induction p s rule: matchLit.induct) (auto split: if_splits)

lemma matchAt_Some:
  assumes "atMentionRE_matchAt s = Some (g, r)"
  shows "s = ''<@'' @ g @ r" and "g \<noteq> []" and "list_all isMentionChar g"
    and "case r of [] \<Rightarrow> True | c # cs \<Rightarrow> \<not> isMentionChar c"
proof -
  from assms obtain q where q: "matchLit ''<@'' s = Some q"
    and g: "g = takeWhile isMentionChar q" and r: "r = dropWhile isMentionChar q"
    and ne: "takeWhile isMentionChar q \<noteq> []"
    by (auto simp: atMentionRE_matchAt_def split: option.splits if_splits)
  show "s = ''<@'' @ g @ r"
    using matchLit_Some [OF q] g r by simp
  show "g \<noteq> []" using g ne by simp
  show "list_all isMentionChar g"
    unfolding g list_all_iff by (auto dest: set_takeWhileD)
  show "case r of [] \<Rightarrow> True | c # cs \<Rightarrow> \<not> isMentionChar c"
  proof (cases r)
    case Nil
    then show ?thesis by simp
  next
    case (Cons c cs)
    with r have "dropWhile isMentionChar q = c # cs" by simp
    then have "\<not> isMentionChar c" by (simp add: dropWhile_eq_Cons_conv)
    with Cons show ?thesis by simp
  qed
qed

lemma text_has_parts:
  "\<exists>gap0 ts. s = gap0 @ mentionText ts \<and> tokensOK ts \<and> gapOK gap0 (mentionText ts)"
proof (induction s rule: atMentionRE_FindAllStringSubmatch.induct)
  case 1
  have "[] = [] @ mentionText [] \<and> tokensOK [] \<and> gapOK [] (mentionText [])"
    by (simp add: gapOK_Nil)
  then show ?case by blast
next
  case (2 c cs)
  show ?case
  proof (cases "atMentionRE_matchAt (c # cs)")
    case None
    from "2.IH"(1) [OF None] obtain gap0 ts where p: "cs = gap0 @ mentionText ts" "tokensOK ts"
        "gapOK gap0 (mentionText ts)"
      by blast
    have "\<not> hasMentionAt (c # gap0 @ mentionText ts) 0"
      using None p(1) by (simp add: matchAt_None_iff)
    with p have "c # cs = (c # gap0) @ mentionText ts \<and> tokensOK ts
        \<and> gapOK (c # gap0) (mentionText ts)"
      by (simp add: gapOK_Cons)
    then show ?thesis by blast
  next
    case (Some x)
    obtain g r where x: "x = (g, r)" by (cases x)
    from "2.IH"(2) [OF Some x [symmetric]] obtain gap1 ts where p: "r = gap1 @ mentionText ts"
        "tokensOK ts" "gapOK gap1 (mentionText ts)"
      by blast
    note m = matchAt_Some [OF Some [unfolded x]]
    have "c # cs = [] @ mentionText ((g, gap1) # ts)"
      using m(1) p(1) by simp
    moreover have "tokensOK ((g, gap1) # ts)"
      using m(2,3,4) p by simp
    ultimately show ?thesis
      using gapOK_Nil by blast
  qed
qed

text \<open>
  Claim C10. For a command text with \<open>N\<close> mention tokens, written by its parts (any
  gap in front, then \<open>N\<close> identifiers each with the gap behind it), the matches of
  \<^verbatim>\<open>atMentionRE\<close> have exactly the \<open>N\<close> identifiers as their groups \<^verbatim>\<open>match[1]\<close>, in the
  order of the text; an identifier that stands twice is found twice.
\<close>

theorem mention_extraction:
  assumes "tokensOK ts" and "gapOK gap0 (mentionText ts)"
  shows "map snd (atMentionRE_FindAllStringSubmatch (gap0 @ mentionText ts)) = map fst ts
       \<and> length (atMentionRE_FindAllStringSubmatch (gap0 @ mentionText ts)) = length ts"
proof -
  have "atMentionRE_FindAllStringSubmatch (gap0 @ mentionText ts)
          = map (\<lambda>(uid, gap). (''<@'' @ uid, uid)) ts"
    using assms by (simp add: FindAll_skip_gap FindAll_mentionText)
  then show ?thesis
    by (simp add: case_prod_unfold comp_def)
qed

theorem mention_extraction_witness:
  "tokensOK [(''U1'', ''|ann> and ''), (''U2'', ''> and again ''), (''U1'', ''>'')]
   \<and> gapOK ''hello '' (mentionText [(''U1'', ''|ann> and ''), (''U2'', ''> and again ''), (''U1'', ''>'')])
   \<and> ''hello '' @ mentionText [(''U1'', ''|ann> and ''), (''U2'', ''> and again ''), (''U1'', ''>'')]
       = ''hello <@U1|ann> and <@U2> and again <@U1>''
   \<and> map snd (atMentionRE_FindAllStringSubmatch ''hello <@U1|ann> and <@U2> and again <@U1>'')
       = [''U1'', ''U2'', ''U1'']"
proof -
  let ?ts = "[(''U1'', ''|ann> and ''), (''U2'', ''> and again ''), (''U1'', ''>'')]"
  have t: "tokensOK ?ts"
    by (simp add: gapOK_Cons gapOK_Nil hasMentionAt_def isMentionChar_def)
  have g: "gapOK ''hello '' (mentionText ?ts)"
    by (simp add: gapOK_Cons gapOK_Nil hasMentionAt_def isMentionChar_def)
  have e: "''hello '' @ mentionText ?ts = ''hello <@U1|ann> and <@U2> and again <@U1>''"
    by simp
  from mention_extraction [OF t g] t g e show ?thesis
    by simp
qed

lemma FindAll_Nil_iff:
  "atMentionRE_FindAllStringSubmatch s = [] \<longleftrightarrow> (\<forall>i. \<not> hasMentionAt s i)"
proof
  assume "\<forall>i. \<not> hasMentionAt s i"
  then have "gapOK s []" by (simp add: gapOK_def)
  from FindAll_skip_gap [OF this] show "atMentionRE_FindAllStringSubmatch s = []" by simp
next
  show "atMentionRE_FindAllStringSubmatch s = [] \<Longrightarrow> \<forall>i. \<not> hasMentionAt s i"
  proof (induction s)
    case Nil
    then show ?case by (simp add: hasMentionAt_def)
  next
    case (Cons c s)
    from Cons.prems have none: "atMentionRE_matchAt (c # s) = None"
      by (auto split: option.splits)
    with Cons.prems have "atMentionRE_FindAllStringSubmatch s = []" by simp
    with Cons.IH have rest: "\<forall>i. \<not> hasMentionAt s i" by simp
    show ?case
    proof
      fix i
      show "\<not> hasMentionAt (c # s) i"
        using none rest by (cases i) (simp_all add: matchAt_None_iff hasMentionAt_Cons)
    qed
  qed
qed

section \<open>Dispatching the invites\<close>

text \<open>
  Claim C4. When no mention token starts anywhere in the command text,
  \<^verbatim>\<open>dispatchInvites\<close> makes the meeting and answers at once: with status 200 and the
  channel-wide \<^verbatim>\<open>roomTemplate\<close> message carrying the meeting's host and URL when the
  meeting was made, with status 500 when the server configuration could not be read.
  Either way the only calls are the two of \<^verbatim>\<open>New\<close> (and the log of its error):
  \<^verbatim>\<open>GetFirstBotTokenForTeam\<close> is not among them.
\<close>

theorem dispatch_without_mentions:
  assumes "\<forall>i. \<not> hasMentionAt (PostFormValue r ''text'') i"
  shows "dispatchInvites lib s r st =
           (case fst (MeetingGenerator_New lib (MeetingGenerator s) (PostFormValue r ''team_id'')
                        (PostFormValue r ''team_domain'') (trace st)) of
              Inr meeting \<Rightarrow>
                respond
                  (\<lambda>w. Write (roomTemplate (Host meeting) (Host meeting) (URL meeting))
                         (WriteHeader StatusOK (Header_Set ''Content-type'' ''application/json'' w)))
                  (emit [EvRandomName, EvConfigGet (PostFormValue r ''team_id'')] st)
            | Inl err \<Rightarrow>
                respond (WriteHeader StatusInternalServerError)
                  (emit [EvRandomName, EvConfigGet (PostFormValue r ''team_id''),
                         EvLog ''generating meeting'' err] st))
       \<and> (\<forall>team. EvTokenGet team
             \<notin> set (drop (length (trace st)) (trace (dispatchInvites lib s r st))))"
proof -
  let ?new = "MeetingGenerator_New lib (MeetingGenerator s) (PostFormValue r ''team_id'')
                (PostFormValue r ''team_domain'') (trace st)"
  have none: "atMentionRE_FindAllStringSubmatch (PostFormValue r ''text'') = []"
    using assms by (simp add: FindAll_Nil_iff)
  have tr: "snd ?new = trace st @ [EvRandomName, EvConfigGet (PostFormValue r ''team_id'')]"
    by (rule MeetingGenerator_New_trace)
  obtain res tr1 where new: "?new = (res, tr1)" by (cases ?new)
  with tr have tr1: "tr1 = trace st @ [EvRandomName, EvConfigGet (PostFormValue r ''team_id'')]"
    by simp
  show ?thesis
  proof (cases res)
    case (Inl err)
    with new tr1 show ?thesis
      by (simp add: dispatchInvites_def Let_def emit_def respond_def)
  next
    case (Inr meeting)
    with new tr1 none show ?thesis
      by (simp add: dispatchInvites_def Let_def emit_def respond_def)
  qed
qed

theorem dispatch_without_mentions_witness:
  "(\<forall>i. \<not> hasMentionAt (PostFormValue (demoRequest ''U1'' ''standup <@> now'') ''text'') i)
   \<and> statusCode (writer (dispatchInvites demoLibrary (demoHandlers (demoCfg False False))
          (demoRequest ''U1'' ''standup <@> now'') start)) = 200
   \<and> body (writer (dispatchInvites demoLibrary (demoHandlers (demoCfg False False))
          (demoRequest ''U1'' ''standup <@> now'') start))
       = roomTemplate ''https://meet.example'' ''https://meet.example''
           ''https://meet.example/QuietRiverRunsFar''
   \<and> trace (dispatchInvites demoLibrary (demoHandlers (demoCfg False False))
          (demoRequest ''U1'' ''standup <@> now'') start)
       = [EvRandomName, EvConfigGet ''T1'']"
proof -
  have "atMentionRE_FindAllStringSubmatch ''standup <@> now'' = []"
    by (simp add: atMentionRE_matchAt_def isMentionChar_def)
  then have "\<forall>i. \<not> hasMentionAt ''standup <@> now'' i"
    by (rule iffD1 [OF FindAll_Nil_iff])
  then have h: "\<forall>i. \<not> hasMentionAt (PostFormValue (demoRequest ''U1'' ''standup <@> now'') ''text'') i"
    by (simp add: demoRequest_def PostFormValue_def)
  from dispatch_without_mentions [OF h, of demoLibrary "demoHandlers (demoCfg False False)" start]
  have "dispatchInvites demoLibrary (demoHandlers (demoCfg False False))
          (demoRequest ''U1'' ''standup <@> now'') start
        = respond
            (\<lambda>w. Write (roomTemplate ''https://meet.example'' ''https://meet.example''
                           ''https://meet.example/QuietRiverRunsFar'')
                   (WriteHeader StatusOK (Header_Set ''Content-type'' ''application/json'' w)))
            (emit [EvRandomName, EvConfigGet ''T1''] start)"
    by (simp add: demo_defs MeetingGenerator_New_def PostFormValue_def Let_def)
  with h show ?thesis
    by (simp add: respond_def emit_def start_def Write_def WriteHeader_def Header_Set_def
        newResponseWriter_def statusCode_def StatusOK_def)
qed

subsection \<open>The loop over the mentioned users\<close>

lemma inviteLoop_append:
  "inviteLoop lib s token callerID meeting (xs @ ys) st =
     (case inviteLoop lib s token callerID meeting xs st of
        (Return, st1) \<Rightarrow> (Return, st1)
      | (Continue, st1) \<Rightarrow> inviteLoop lib s token callerID meeting ys st1)"
  by (induction xs arbitrary: st) (auto split: prod.splits option.splits control.splits)

lemma inviteLoop_Continue_writer:
  "inviteLoop lib s token callerID meeting ms st = (Continue, st1) \<Longrightarrow> writer st1 = writer st"
  by (induction ms arbitrary: st)
     (auto simp: emit_def split: prod.splits option.splits if_splits)

lemma joinPersonalMeetingMsg_ok:
  "joinPersonalMeetingMsg lib token userID meeting tr = ((resp, None), tr1) \<Longrightarrow>
     \<exists>url. resp = userTemplate (Host meeting) (Host meeting) url"
  by (auto simp: joinPersonalMeetingMsg_def split: sum.splits prod.splits option.splits)

lemma install_fresh:
  "statusCode (install url newResponseWriter) = 200
   \<and> body (install url newResponseWriter) = installMessage url"
  by (simp add: install_def Write_def WriteHeader_def Header_Set_def newResponseWriter_def
      statusCode_def StatusOK_def)

text \<open>
  Claim C1, amended. The meeting is made, the text has the matches \<open>pre @ m # post\<close>,
  the token is read, the loop has run over \<open>pre\<close> without returning, and sending to
  the user of \<open>m\<close> fails with \<open>err\<close>, the trace then being \<open>tr2\<close>.

  \<^item> If \<open>err\<close> is \<^verbatim>\<open>invalid_auth\<close>, \<^verbatim>\<open>account_inactive\<close> or \<^verbatim>\<open>not_authed\<close>, the handler
    writes the install prompt and returns: its trace is \<open>tr2\<close>, so nothing is called
    for any user of \<open>post\<close>, whatever \<open>post\<close> is.
  \<^item> Otherwise the error is logged and the loop goes on with \<open>post\<close>, the response
    writer untouched. The caller gets the \<^verbatim>\<open>userTemplate\<close> confirmation, with status
    200, provided the loop reaches its end (no later send fails with a credential
    error) and the caller's message is composed without error.
\<close>

theorem invite_loop_failure:
  assumes new: "MeetingGenerator_New lib (MeetingGenerator s) (PostFormValue r ''team_id'')
                  (PostFormValue r ''team_domain'') (trace st) = (Inr meeting, tr1)"
    and matches: "atMentionRE_FindAllStringSubmatch (PostFormValue r ''text'') = pre @ m # post"
    and token: "TokenReader s tr1 (PostFormValue r ''team_id'') = Inr token"
    and pre: "inviteLoop lib s token (PostFormValue r ''user_id'') meeting pre
                (st\<lparr>trace := tr1 @ [EvTokenGet (PostFormValue r ''team_id'')]\<rparr>) = (Continue, st1)"
    and send: "sendPersonalizedInvite lib token (PostFormValue r ''user_id'') (snd m) meeting
                 (trace st1) = (Some err, tr2)"
  shows "if isCredentialError err
         then dispatchInvites lib s r st = respond (install (SharableURL s)) (st\<lparr>trace := tr2\<rparr>)
         else
           (case inviteLoop lib s token (PostFormValue r ''user_id'') meeting post
                   (st\<lparr>trace := tr2 @ [EvLog ''inviting user'' err]\<rparr>) of
              (Return, st3) \<Rightarrow> dispatchInvites lib s r st = st3
            | (Continue, st3) \<Rightarrow>
                (case joinPersonalMeetingMsg lib token (PostFormValue r ''user_id'') meeting
                        (trace st3) of
                   ((resp, None), tr4) \<Rightarrow>
                     dispatchInvites lib s r st =
                       respond (\<lambda>w. Write resp (WriteHeader StatusOK
                                  (Header_Set ''Content-type'' ''application/json'' w)))
                         (st\<lparr>trace := tr4\<rparr>)
                     \<and> (\<exists>url. resp = userTemplate (Host meeting) (Host meeting) url)
                 | ((resp, Some e), tr4) \<Rightarrow> True))"
proof -
  let ?c = "PostFormValue r ''user_id''"
  let ?st0 = "st\<lparr>trace := tr1 @ [EvTokenGet (PostFormValue r ''team_id'')]\<rparr>"
  let ?rest = "inviteLoop lib s token ?c meeting post
                 (st\<lparr>trace := tr2 @ [EvLog ''inviting user'' err]\<rparr>)"
  have "writer st1 = writer st"
    using inviteLoop_Continue_writer [OF pre] by simp
  then have st1: "st1\<lparr>trace := tr2\<rparr> = st\<lparr>trace := tr2\<rparr>"
    by simp
  have loop: "inviteLoop lib s token ?c meeting (pre @ m # post) ?st0
      = (if isCredentialError err
         then (Return, respond (install (SharableURL s)) (st\<lparr>trace := tr2\<rparr>))
         else ?rest)"
    using pre send st1 by (simp add: inviteLoop_append emit_def)
  have ne: "pre @ m # post \<noteq> []" by simp
  show ?thesis
  proof (cases "isCredentialError err")
    case True
    with loop new matches token ne show ?thesis
      by (simp add: dispatchInvites_def Let_def)
  next
    case False
    obtain c st3 where r3: "?rest = (c, st3)"
      by (cases ?rest)
    show ?thesis
    proof (cases c)
      case Return
      with False loop new matches token ne r3 show ?thesis
        by (simp add: dispatchInvites_def Let_def)
    next
      case Continue
      with r3 have "writer st3 = writer st"
        using inviteLoop_Continue_writer [of lib s token ?c meeting post _ st3] by simp
      then have st3: "\<And>t. st3\<lparr>trace := t\<rparr> = st\<lparr>trace := t\<rparr>" by simp
      obtain resp e tr4 where j: "joinPersonalMeetingMsg lib token ?c meeting (trace st3)
           = ((resp, e), tr4)"
        by (metis prod.exhaust)
      show ?thesis
      proof (cases e)
        case None
        with False Continue loop new matches token ne r3 j st3
          joinPersonalMeetingMsg_ok [of lib token ?c meeting "trace st3" resp tr4]
        show ?thesis
          by (simp add: dispatchInvites_def Let_def)
      next
        case (Some a)
        with False Continue r3 j show ?thesis by simp
      qed
    qed
  qed
qed

theorem invite_loop_failure_witness:
  "atMentionRE_FindAllStringSubmatch ''<@UA> <@UBUSY> <@UB>''
     = [(''<@UA'', ''UA'')] @ (''<@UBUSY'', ''UBUSY'') # [(''<@UB'', ''UB'')]
   \<and> \<not> isCredentialError ''channel_not_found''
   \<and> dispatchInvites demoLibrary (demoHandlers (demoCfg True False))
         (demoRequest ''U1'' ''<@UA> <@UBUSY> <@UB>'') start
       = respond (\<lambda>w. Write (userTemplate ''https://meet.example'' ''https://meet.example''
                                ''https://meet.example/acme/QuietRiverRunsFar'')
                         (WriteHeader StatusOK (Header_Set ''Content-type'' ''application/json'' w)))
           (start\<lparr>trace :=
              [EvRandomName,
               EvConfigGet ''T1'',
               EvTokenGet ''T1'',
               EvGetUserInfo ''xoxb-1'' ''UA'',
               EvOpenConversation ''xoxb-1'' ''UA'',
               EvPostMessage ''xoxb-1'' ''DUA''
           ''<@U1> would like you to join a meeting on https://meet.example''
           ''https://meet.example/acme/QuietRiverRunsFar'',
               EvGetUserInfo ''xoxb-1'' ''UBUSY'',
               EvOpenConversation ''xoxb-1'' ''UBUSY'',
               EvLog ''inviting user'' ''channel_not_found'',
               EvGetUserInfo ''xoxb-1'' ''UB'',
               EvOpenConversation ''xoxb-1'' ''UB'',
               EvPostMessage ''xoxb-1'' ''DUB''
           ''<@U1> would like you to join a meeting on https://meet.example''
           ''https://meet.example/acme/QuietRiverRunsFar'',
               EvGetUserInfo ''xoxb-1'' ''U1'']\<rparr>)
   \<and> atMentionRE_FindAllStringSubmatch ''<@UA> <@UREVOKED> <@UB>''
     = [(''<@UA'', ''UA'')] @ (''<@UREVOKED'', ''UREVOKED'') # [(''<@UB'', ''UB'')]
   \<and> isCredentialError ''invalid_auth''
   \<and> dispatchInvites demoLibrary (demoHandlers (demoCfg True False))
         (demoRequest ''U1'' ''<@UA> <@UREVOKED> <@UB>'') start
       = respond (install ''https://example.test/install'')
           (start\<lparr>trace :=
              [EvRandomName,
               EvConfigGet ''T1'',
               EvTokenGet ''T1'',
               EvGetUserInfo ''xoxb-1'' ''UA'',
               EvOpenConversation ''xoxb-1'' ''UA'',
               EvPostMessage ''xoxb-1'' ''DUA''
           ''<@U1> would like you to join a meeting on https://meet.example''
           ''https://meet.example/acme/QuietRiverRunsFar'',
               EvGetUserInfo ''xoxb-1'' ''UREVOKED'',
               EvOpenConversation ''xoxb-1'' ''UREVOKED'']\<rparr>)"
  using invite_loop_failure [of demoLibrary "demoHandlers (demoCfg True False)"
      "demoRequest ''U1'' ''<@UA> <@UBUSY> <@UB>''" start
      "\<lparr>RoomName = ''QuietRiverRunsFar'', URL = ''https://meet.example/acme/QuietRiverRunsFar'',
        Host = ''https://meet.example'',
        AuthenticatedURL = (\<lambda>userID userName avatarURL t.
           ((''https://meet.example/acme/QuietRiverRunsFar'', None), t))\<rparr>"
      "[EvRandomName, EvConfigGet ''T1'']"
      "[(''<@UA'', ''UA'')]" "(''<@UBUSY'', ''UBUSY'')" "[(''<@UB'', ''UB'')]"
      "''xoxb-1''"
      "start\<lparr>trace := [EvRandomName,
         EvConfigGet ''T1'',
         EvTokenGet ''T1'',
         EvGetUserInfo ''xoxb-1'' ''UA'',
         EvOpenConversation ''xoxb-1'' ''UA'',
         EvPostMessage ''xoxb-1'' ''DUA''
           ''<@U1> would like you to join a meeting on https://meet.example''
           ''https://meet.example/acme/QuietRiverRunsFar'']\<rparr>"
      "''channel_not_found''"
      "[EvRandomName,
         EvConfigGet ''T1'',
         EvTokenGet ''T1'',
         EvGetUserInfo ''xoxb-1'' ''UA'',
         EvOpenConversation ''xoxb-1'' ''UA'',
         EvPostMessage ''xoxb-1'' ''DUA''
           ''<@U1> would like you to join a meeting on https://meet.example''
           ''https://meet.example/acme/QuietRiverRunsFar'',
         EvGetUserInfo ''xoxb-1'' ''UBUSY'',
         EvOpenConversation ''xoxb-1'' ''UBUSY'']"]
    invite_loop_failure [of demoLibrary "demoHandlers (demoCfg True False)"
      "demoRequest ''U1'' ''<@UA> <@UREVOKED> <@UB>''" start
      "\<lparr>RoomName = ''QuietRiverRunsFar'', URL = ''https://meet.example/acme/QuietRiverRunsFar'',
        Host = ''https://meet.example'',
        AuthenticatedURL = (\<lambda>userID userName avatarURL t.
           ((''https://meet.example/acme/QuietRiverRunsFar'', None), t))\<rparr>"
      "[EvRandomName, EvConfigGet ''T1'']"
      "[(''<@UA'', ''UA'')]" "(''<@UREVOKED'', ''UREVOKED'')" "[(''<@UB'', ''UB'')]"
      "''xoxb-1''"
      "start\<lparr>trace := [EvRandomName,
         EvConfigGet ''T1'',
         EvTokenGet ''T1'',
         EvGetUserInfo ''xoxb-1'' ''UA'',
         EvOpenConversation ''xoxb-1'' ''UA'',
         EvPostMessage ''xoxb-1'' ''DUA''
           ''<@U1> would like you to join a meeting on https://meet.example''
           ''https://meet.example/acme/QuietRiverRunsFar'']\<rparr>"
      "''invalid_auth''"
      "[EvRandomName,
         EvConfigGet ''T1'',
         EvTokenGet ''T1'',
         EvGetUserInfo ''xoxb-1'' ''UA'',
         EvOpenConversation ''xoxb-1'' ''UA'',
         EvPostMessage ''xoxb-1'' ''DUA''
           ''<@U1> would like you to join a meeting on https://meet.example''
           ''https://meet.example/acme/QuietRiverRunsFar'',
         EvGetUserInfo ''xoxb-1'' ''UREVOKED'',
         EvOpenConversation ''xoxb-1'' ''UREVOKED'']"]
  by (simp add: demo_defs handler_defs)

text \<open>
  As claim C1 is worded, any send that fails with another error is followed by the
  caller's confirmation. It is not when a later send fails with a credential error:
  user \<open>U1\<close> mentions \<open>UBUSY\<close> and \<open>UREVOKED\<close>; the send to \<open>UBUSY\<close> fails with
  \<^verbatim>\<open>channel_not_found\<close> and is logged, the loop goes on, the send to \<open>UREVOKED\<close> fails
  with \<^verbatim>\<open>invalid_auth\<close>, and the caller gets the install prompt.
\<close>

theorem later_credential_error_counterexample:
  "atMentionRE_FindAllStringSubmatch ''<@UBUSY> <@UREVOKED>''
     = [(''<@UBUSY'', ''UBUSY''), (''<@UREVOKED'', ''UREVOKED'')]
   \<and> sendPersonalizedInvite demoLibrary ''xoxb-1'' ''U1'' ''UBUSY''
        (projr (fst (MeetingGenerator_New demoLibrary (demoGenerator (demoCfg True False))
                       ''T1'' ''Acme'' [])))
        [EvRandomName, EvConfigGet ''T1'', EvTokenGet ''T1'']
      = (Some ''channel_not_found'',
         [EvRandomName, EvConfigGet ''T1'', EvTokenGet ''T1'',
          EvGetUserInfo ''xoxb-1'' ''UBUSY'', EvOpenConversation ''xoxb-1'' ''UBUSY''])
   \<and> \<not> isCredentialError ''channel_not_found''
   \<and> trace (dispatchInvites demoLibrary (demoHandlers (demoCfg True False))
         (demoRequest ''U1'' ''<@UBUSY> <@UREVOKED>'') start)
      = [EvRandomName, EvConfigGet ''T1'', EvTokenGet ''T1'',
         EvGetUserInfo ''xoxb-1'' ''UBUSY'', EvOpenConversation ''xoxb-1'' ''UBUSY'',
         EvLog ''inviting user'' ''channel_not_found'',
         EvGetUserInfo ''xoxb-1'' ''UREVOKED'', EvOpenConversation ''xoxb-1'' ''UREVOKED'']
   \<and> statusCode (writer (dispatchInvites demoLibrary (demoHandlers (demoCfg True False))
         (demoRequest ''U1'' ''<@UBUSY> <@UREVOKED>'') start)) = 200
   \<and> body (writer (dispatchInvites demoLibrary (demoHandlers (demoCfg True False))
         (demoRequest ''U1'' ''<@UBUSY> <@UREVOKED>'') start))
      = installMessage ''https://example.test/install''
   \<and> body (writer (dispatchInvites demoLibrary (demoHandlers (demoCfg True False))
         (demoRequest ''U1'' ''<@UBUSY> <@UREVOKED>'') start))
      \<noteq> userTemplate ''https://meet.example'' ''https://meet.example''
           ''https://meet.example/acme/QuietRiverRunsFar''"
  by (simp add: demo_defs handler_defs installMessage_def userTemplate_def nl_def tabs_def)

subsection \<open>The caller's message cannot be composed\<close>

lemma joinPersonalMeetingMsg_error:
  "joinPersonalMeetingMsg lib token userID meeting tr = ((resp, Some err), tr1) \<Longrightarrow> resp = []"
  by (auto simp: joinPersonalMeetingMsg_def split: sum.splits prod.splits option.splits)

text \<open>
  Whenever the loop has run to its end and composing the caller's message fails with an
  error that is not a credential error, the handler answers 200 with an empty body.
\<close>

lemma compose_error_general:
  assumes new: "MeetingGenerator_New lib (MeetingGenerator s) (PostFormValue r ''team_id'')
                  (PostFormValue r ''team_domain'') (trace st) = (Inr meeting, tr1)"
    and matches: "atMentionRE_FindAllStringSubmatch (PostFormValue r ''text'') \<noteq> []"
    and token: "TokenReader s tr1 (PostFormValue r ''team_id'') = Inr token"
    and loop: "inviteLoop lib s token (PostFormValue r ''user_id'') meeting
                 (atMentionRE_FindAllStringSubmatch (PostFormValue r ''text''))
                 (st\<lparr>trace := tr1 @ [EvTokenGet (PostFormValue r ''team_id'')]\<rparr>) = (Continue, st1)"
    and join: "joinPersonalMeetingMsg lib token (PostFormValue r ''user_id'') meeting (trace st1)
                 = ((resp, Some err), tr2)"
    and err: "\<not> isCredentialError err"
  shows "dispatchInvites lib s r st =
           respond (\<lambda>w. Write [] (WriteHeader StatusOK
                      (Header_Set ''Content-type'' ''application/json'' w)))
             (st\<lparr>trace := tr2 @ [EvLog ''inviting user'' err]\<rparr>)"
proof -
  have "writer st1 = writer st"
    using inviteLoop_Continue_writer [OF loop] by simp
  then have st1: "\<And>t. st1\<lparr>trace := t\<rparr> = st\<lparr>trace := t\<rparr>" by simp
  have "resp = []"
    using join by (rule joinPersonalMeetingMsg_error)
  with new matches token loop join err st1 show ?thesis
    by (simp add: dispatchInvites_def Let_def)
qed

text \<open>
  Claim C3 says that a failure is answered by a bare 401, an instruction, the install
  prompt or a bare 500, and never by a 200 with another body. The code does not keep
  to it. User \<open>UGONE\<close> invites \<open>UA\<close>; the invite is delivered; then the lookup of the
  caller fails with \<^verbatim>\<open>user_not_found\<close>, which is not a credential error. The handler
  logs the error and goes on to write status 200 with the empty string that
  \<^verbatim>\<open>joinPersonalMeetingMsg\<close> returned beside the error.
\<close>

theorem compose_error_answers_empty_200:
  "map_sum id (\<lambda>st. (statusCode (writer st), body (writer st), last (trace st)))
     (Jitsi demoLibrary (demoHandlers (demoCfg True False)) (demoRequest ''UGONE'' ''<@UA>'') start)
   = Inr (200, [], EvLog ''inviting user'' ''user_not_found'')"
  by (simp add: demo_defs handler_defs)

section \<open>Server configuration\<close>

lemma strings_Split_no_sep: "sep \<notin> set s \<Longrightarrow> strings_Split s sep = [s]"
  by (induction s) auto

lemma configureServer_no_space:
  "CHR '' '' \<notin> set (PostFormValue r ''text'') \<Longrightarrow>
     configureServer s r st = Inl (IndexOutOfRange 1 1)"
  by (simp add: configureServer_def strings_Split_no_sep index_def)

lemma configureServer_instruction:
  assumes "index (strings_Split (PostFormValue r ''text'') CHR '' '') 1 = Inr c1"
    and "c1 \<noteq> ''default''"
    and "\<not> serverConfigRE_MatchString (PostFormValue r ''text'')"
  shows "configureServer s r st =
           Inr (respond
                  (\<lambda>w. Write ''A proper conference host must be provided.''
                         (WriteHeader StatusOK (Header_Set ''Content-type'' ''application/json'' w)))
                  st)"
  using assms by (simp add: configureServer_def Let_def)

text \<open>
  Claim C2 says that the text \<^verbatim>\<open>server\<close> with no arguments is answered by the
  instruction to give a proper host, with status 200. The code does not get that far:
  \<^verbatim>\<open>strings.Split("server", " ")\<close> has one element, and \<^verbatim>\<open>configuration[1]\<close> panics
  with index 1 out of range for length 1. Nothing is written and nothing is stored.
\<close>

theorem bare_server_panics:
  "strings_Split ''server'' CHR '' '' = [''server'']
   \<and> configureServer (demoHandlers (demoCfg True False)) (demoRequest ''U1'' ''server'') start
       = Inl (IndexOutOfRange 1 1)
   \<and> Jitsi demoLibrary (demoHandlers (demoCfg True False)) (demoRequest ''U1'' ''server'') start
       = Inl (IndexOutOfRange 1 1)"
  by (simp add: demo_defs handler_defs)

end
